theory Spec2Isabelle
  imports Main
begin

section \<open>The RSVP endpoint of the event platform\<close>

text \<open>
  The development embeds the handler \<^verbatim>\<open>router.post("/:id/rsvp", auth, ...)\<close> of
  \<^verbatim>\<open>backend/routes/events.js\<close> (lines 104 to 154) and the three Mongoose calls it makes.

  Identifiers are kept abstract: \<open>'e\<close> is the type of event identifiers (\<^verbatim>\<open>req.params.id\<close>
  once cast to the \<^verbatim>\<open>_id\<close> of the collection) and \<open>'u\<close> the type of user identifiers
  (\<^verbatim>\<open>req.user.id\<close>, set by the \<^verbatim>\<open>auth\<close> middleware). A request whose identifier cannot be
  cast at all is outside the model.
\<close>

subsection \<open>Documents, the collection, requests and responses\<close>

text \<open>
  Modelled from the spec: the schema \<^verbatim>\<open>models/Event.js\<close>, which the handler requires, is
  missing from the sources. The handler reads two fields of an event document: \<^verbatim>\<open>capacity\<close>,
  compared with an array length (an integer, as in the data model of the spec; negative
  values are not excluded), and \<^verbatim>\<open>attendees\<close>, an array of user identifiers, where an
  identifier is found by equality of identifiers. Every other field (title, description,
  date, location, image, organizer) is carried along in \<open>other_fields\<close>, whose type is a
  parameter.
\<close>

record ('u, 'x) event =
  capacity :: int
  attendees :: "'u list"
  other_fields :: 'x

text \<open>The collection: at most one document per \<^verbatim>\<open>_id\<close>.\<close>

type_synonym ('e, 'u, 'x) store = "'e \<rightharpoonup> ('u, 'x) event"

text \<open>
  The three constants of lines 106 to 108, once line 108 has read \<^verbatim>\<open>action\<close> out of the
  parsed body. \<^verbatim>\<open>req.body.action\<close> is whatever JSON value the client sent, or \<^verbatim>\<open>undefined\<close>
  when the body has no such field. The handler compares it with \<^verbatim>\<open>===\<close>, so only the two
  strings \<^verbatim>\<open>"join"\<close> and \<^verbatim>\<open>"leave"\<close> select a branch.
\<close>

datatype js_value = Undefined | Null | JBool bool | JNum int | JStr string

record ('e, 'u) request =
  userId :: 'u
  eventId :: 'e
  action :: js_value

text \<open>
  What \<^verbatim>\<open>res.status(c).json(b)\<close> sends: the status code (200 when \<^verbatim>\<open>res.json\<close> is called
  directly) and the body. The \<^verbatim>\<open>catch\<close> clause sends \<^verbatim>\<open>{ error: err.message }\<close>; the
  exceptions the modelled code raises are the \<^verbatim>\<open>TypeError\<close> of reading a property of
  \<^verbatim>\<open>null\<close> (line 147) and the \<^verbatim>\<open>TypeError\<close> of destructuring a property out of
  \<^verbatim>\<open>undefined\<close> (line 108), each recorded with the name of the property.
\<close>

datatype js_error =
    TypeError_property_of_null string
  | TypeError_destructure_undefined string

datatype 'u body =
    Message string
  | MessageAttendees string "'u list"
  | ErrorBody js_error

datatype 'u response = Response nat "'u body"

subsection \<open>The Mongoose calls\<close>

text \<open>
  The filter of the join branch (lines 116 to 120), without the \<^verbatim>\<open>_id\<close> part:
  \<^verbatim>\<open>$expr: { $lt: [{ $size: "$attendees" }, "$capacity"] }\<close> and
  \<^verbatim>\<open>attendees: { $ne: userId }\<close>.
\<close>

definition join_filter :: "'u \<Rightarrow> ('u, 'x) event \<Rightarrow> bool" where
  "join_filter uid ev \<longleftrightarrow>
     int (length (attendees ev)) < capacity ev \<and> uid \<notin> set (attendees ev)"

text \<open>
  \<^verbatim>\<open>Event.findOneAndUpdate({_id, ...filter}, { $push: { attendees: userId } }, { new: true })\<close>:
  one step of the collection. The document with that \<^verbatim>\<open>_id\<close> is updated when it exists and
  passes the filter, and the updated document is returned; otherwise nothing is written and
  the result is \<^verbatim>\<open>null\<close>.
\<close>

definition findOneAndUpdate_push ::
  "('e, 'u, 'x) store \<Rightarrow> 'e \<Rightarrow> 'u \<Rightarrow> ('e, 'u, 'x) store \<times> ('u, 'x) event option" where
  "findOneAndUpdate_push s eid uid =
     (case s eid of
        None \<Rightarrow> (s, None)
      | Some ev \<Rightarrow>
          if join_filter uid ev
          then (let ev' = ev\<lparr>attendees := attendees ev @ [uid]\<rparr>
                in (s(eid \<mapsto> ev'), Some ev'))
          else (s, None))"

text \<open>\<^verbatim>\<open>Event.findById(eventId)\<close>: a read, \<^verbatim>\<open>null\<close> when there is no such document.\<close>

definition findById :: "('e, 'u, 'x) store \<Rightarrow> 'e \<Rightarrow> ('u, 'x) event option" where
  "findById s eid = s eid"

text \<open>
  \<^verbatim>\<open>Event.findByIdAndUpdate(eventId, { $pull: { attendees: userId } }, { new: true })\<close>:
  \<^verbatim>\<open>$pull\<close> removes every element equal to \<^verbatim>\<open>userId\<close>; the result is the updated document,
  or \<^verbatim>\<open>null\<close> when there is no such document.
\<close>

definition findByIdAndUpdate_pull ::
  "('e, 'u, 'x) store \<Rightarrow> 'e \<Rightarrow> 'u \<Rightarrow> ('e, 'u, 'x) store \<times> ('u, 'x) event option" where
  "findByIdAndUpdate_pull s eid uid =
     (case s eid of
        None \<Rightarrow> (s, None)
      | Some ev \<Rightarrow>
          (let ev' = ev\<lparr>attendees := filter (\<lambda>a. a \<noteq> uid) (attendees ev)\<rparr>
           in (s(eid \<mapsto> ev'), Some ev')))"

subsection \<open>The handler\<close>

text \<open>
  Lines 127 to 134: the answer after a rejected update, from the document \<^verbatim>\<open>currentEvent\<close>
  that \<^verbatim>\<open>findById\<close> returned.
\<close>

definition classify :: "('u, 'x) event option \<Rightarrow> 'u \<Rightarrow> 'u response" where
  "classify currentEvent uid =
     (case currentEvent of
        None \<Rightarrow> Response 404 (Message ''Event not found'')
      | Some cur \<Rightarrow>
          if uid \<in> set (attendees cur) then Response 400 (Message ''Already RSVPed'')
          else if int (length (attendees cur)) \<ge> capacity cur
               then Response 400 (Message ''Event is full'')
          else Response 400 (Message ''RSVP Failed''))"

text \<open>
  The handler from line 110 on, for the three constants \<open>req\<close> of lines 106 to 108.
  \<open>s\<close> is the collection when the handler's update runs. Between the rejected
  update and the \<^verbatim>\<open>findById\<close> of line 127 the handler awaits, and other requests may be
  served; \<open>d\<close> is the collection as that later read finds it. With no request in between,
  \<open>d = s\<close>, since a rejected update wrote nothing. The first component of the result is the
  collection as the handler's own update leaves it; the second is the response.

  In the leave branch \<^verbatim>\<open>event.attendees\<close> is read without a test for \<^verbatim>\<open>null\<close>: on \<^verbatim>\<open>null\<close>
  it throws, and the \<^verbatim>\<open>catch\<close> clause answers 500. A database call that itself fails (no
  connection, a time-out) would reach the same clause; such failures are outside the model.
\<close>

definition rsvp ::
  "('e, 'u, 'x) store \<Rightarrow> ('e, 'u, 'x) store \<Rightarrow> ('e, 'u) request
     \<Rightarrow> ('e, 'u, 'x) store \<times> 'u response" where
  "rsvp s d req =
     (if action req = JStr ''join'' then
        (case findOneAndUpdate_push s (eventId req) (userId req) of
           (s', None) \<Rightarrow> (s', classify (findById d (eventId req)) (userId req))
         | (s', Some ev) \<Rightarrow>
             (s', Response 200 (MessageAttendees ''RSVP Successful'' (attendees ev))))
      else if action req = JStr ''leave'' then
        (case findByIdAndUpdate_pull s (eventId req) (userId req) of
           (s', None) \<Rightarrow> (s', Response 500 (ErrorBody (TypeError_property_of_null ''attendees'')))
         | (s', Some ev) \<Rightarrow>
             (s', Response 200 (MessageAttendees ''RSVP Cancelled'' (attendees ev))))
      else (s, Response 400 (Message ''Invalid action'')))"


text \<open>
  The two requests the claims speak of. Both carry a body, so for them the whole handler
  is \<open>rsvp\<close>.
\<close>

definition Join :: "'e \<Rightarrow> 'u \<Rightarrow> ('e, 'u) request" where
  "Join eid uid = \<lparr>userId = uid, eventId = eid, action = JStr ''join''\<rparr>"

definition Leave :: "'e \<Rightarrow> 'u \<Rightarrow> ('e, 'u) request" where
  "Leave eid uid = \<lparr>userId = uid, eventId = eid, action = JStr ''leave''\<rparr>"


text \<open>
  The outcomes, as the responses that carry them: admission is 200 \<^verbatim>\<open>RSVP Successful\<close> with
  the attendee list; the four failures of a join are 404 \<^verbatim>\<open>Event not found\<close> and 400
  \<^verbatim>\<open>Already RSVPed\<close>, \<^verbatim>\<open>Event is full\<close>, \<^verbatim>\<open>RSVP Failed\<close>; a completed leave is 200
  \<^verbatim>\<open>RSVP Cancelled\<close> with the attendee list.
\<close>

definition admitted :: "'u response \<Rightarrow> bool" where
  "admitted r \<longleftrightarrow>
     (case r of Response st (MessageAttendees m _) \<Rightarrow> st = 200 \<and> m = ''RSVP Successful''
              | _ \<Rightarrow> False)"

text \<open>Sample documents for the concrete runs below: string identifiers, no other field.\<close>

abbreviation (input) sample_event :: "int \<Rightarrow> string list \<Rightarrow> (string, unit) event" where
  "sample_event c as \<equiv> \<lparr>capacity = c, attendees = as, other_fields = ()\<rparr>"

subsection \<open>What one request does\<close>

lemmas eval_defs = rsvp_def Join_def Leave_def findOneAndUpdate_push_def findByIdAndUpdate_pull_def
  findById_def join_filter_def classify_def admitted_def Let_def

lemma rsvp_Join:
  "rsvp s d (Join e u) =
     (case s e of
        None \<Rightarrow> (s, classify (d e) u)
      | Some ev \<Rightarrow>
          if join_filter u ev
          then (s(e \<mapsto> ev\<lparr>attendees := attendees ev @ [u]\<rparr>),
                Response 200 (MessageAttendees ''RSVP Successful'' (attendees ev @ [u])))
          else (s, classify (d e) u))"
  by (simp add: rsvp_def Join_def findOneAndUpdate_push_def findById_def Let_def
           split: option.splits)

lemma rsvp_Leave:
  "rsvp s d (Leave e u) =
     (case s e of
        None \<Rightarrow> (s, Response 500 (ErrorBody (TypeError_property_of_null ''attendees'')))
      | Some ev \<Rightarrow>
          (s(e \<mapsto> ev\<lparr>attendees := filter (\<lambda>a. a \<noteq> u) (attendees ev)\<rparr>),
           Response 200 (MessageAttendees ''RSVP Cancelled'' (filter (\<lambda>a. a \<noteq> u) (attendees ev)))))"
  by (simp add: rsvp_def Leave_def findByIdAndUpdate_pull_def Let_def split: option.splits)

lemma not_admitted_classify: "\<not> admitted (classify c u)"
  by (simp add: classify_def admitted_def split: option.splits)

lemma admitted_success: "admitted (Response 200 (MessageAttendees ''RSVP Successful'' xs))"
  by (simp add: admitted_def)

lemma admitted_Join_iff:
  "admitted (snd (rsvp s d (Join e u))) \<longleftrightarrow> (\<exists>ev. s e = Some ev \<and> join_filter u ev)"
  by (simp add: rsvp_Join not_admitted_classify admitted_success split: option.splits)











lemma classify_range:
  "classify c u \<in> {Response 404 (Message ''Event not found''),
                     Response 400 (Message ''Already RSVPed''),
                     Response 400 (Message ''Event is full''),
                     Response 400 (Message ''RSVP Failed'')}"
  by (simp add: classify_def split: option.splits)

subsection \<open>Admission\<close>

text \<open>
  Claim C1. A join request is answered with the success response and the new attendee list
  exactly when the document exists, the user is not among its attendees and the number of
  attendees is below the capacity, all taken from the collection \<open>s\<close> on which the update
  runs. In that case the stored document is the old one with the user appended, so its set
  of attendees is the old set with the user added, and capacity and the other fields are as
  before. The test and the write are the one step \<open>findOneAndUpdate_push\<close> on \<open>s\<close>: the
  statement holds whatever the later snapshot \<open>d\<close> is.
\<close>

theorem join_admits_iff:
  "(admitted (snd (rsvp s d (Join e u))) \<longleftrightarrow>
      (\<exists>ev. s e = Some ev \<and> u \<notin> set (attendees ev) \<and> int (length (attendees ev)) < capacity ev))
   \<and> (\<forall>ev. s e = Some ev \<and> u \<notin> set (attendees ev) \<and> int (length (attendees ev)) < capacity ev \<longrightarrow>
         rsvp s d (Join e u) =
           (s(e \<mapsto> ev\<lparr>attendees := attendees ev @ [u]\<rparr>),
            Response 200 (MessageAttendees ''RSVP Successful'' (attendees ev @ [u])))
         \<and> (\<exists>ev'. fst (rsvp s d (Join e u)) e = Some ev'
               \<and> set (attendees ev') = insert u (set (attendees ev))
               \<and> capacity ev' = capacity ev \<and> other_fields ev' = other_fields ev))"
proof (intro conjI allI impI)
  show "admitted (snd (rsvp s d (Join e u))) \<longleftrightarrow>
      (\<exists>ev. s e = Some ev \<and> u \<notin> set (attendees ev) \<and> int (length (attendees ev)) < capacity ev)"
    by (auto simp: admitted_Join_iff join_filter_def)
next
  fix ev
  assume h: "s e = Some ev \<and> u \<notin> set (attendees ev) \<and> int (length (attendees ev)) < capacity ev"
  then have f: "join_filter u ev" by (simp add: join_filter_def)
  from h f show "rsvp s d (Join e u) =
           (s(e \<mapsto> ev\<lparr>attendees := attendees ev @ [u]\<rparr>),
            Response 200 (MessageAttendees ''RSVP Successful'' (attendees ev @ [u])))"
    by (simp add: rsvp_Join)
  then show "\<exists>ev'. fst (rsvp s d (Join e u)) e = Some ev'
               \<and> set (attendees ev') = insert u (set (attendees ev))
               \<and> capacity ev' = capacity ev \<and> other_fields ev' = other_fields ev"
    by simp
qed

theorem join_admits_iff_witness:
  "admitted (snd (rsvp [''e1'' \<mapsto> sample_event 2 [''alice'']] Map.empty (Join ''e1'' ''bob'')))
   \<and> rsvp [''e1'' \<mapsto> sample_event 2 [''alice'']] Map.empty (Join ''e1'' ''bob'') =
       ([''e1'' \<mapsto> sample_event 2 [''alice'', ''bob'']],
        Response 200 (MessageAttendees ''RSVP Successful'' [''alice'', ''bob'']))
   \<and> \<not> admitted (snd (rsvp [''e1'' \<mapsto> sample_event 2 [''alice'',''bob'']] Map.empty (Join ''e1'' ''carol'')))"
  using join_admits_iff [of "[''e1'' \<mapsto> sample_event 2 [''alice'']]" Map.empty "''e1''" "''bob''"]
        join_admits_iff [of "[''e1'' \<mapsto> sample_event 2 [''alice'', ''bob'']]" Map.empty "''e1''" "''carol''"]
  by (simp add: admitted_success)

subsection \<open>Capacity\<close>




subsection \<open>No duplicates\<close>




subsection \<open>Rejected joins\<close>

text \<open>
  Claim C4. The collection a join request leaves is the one its single
  \<open>findOneAndUpdate_push\<close> leaves, whatever the diagnostic read finds: there is no second
  update and the read writes nothing. When the answer is not the success response, the
  collection is unchanged, and the answer is one of \<^verbatim>\<open>Event not found\<close> (404),
  \<^verbatim>\<open>Already RSVPed\<close>, \<^verbatim>\<open>Event is full\<close> and \<^verbatim>\<open>RSVP Failed\<close> (400).
\<close>

theorem rejected_join_changes_nothing:
  "fst (rsvp s d (Join e u)) = fst (findOneAndUpdate_push s e u)
   \<and> (\<not> admitted (snd (rsvp s d (Join e u))) \<longrightarrow>
        fst (rsvp s d (Join e u)) = s
        \<and> snd (rsvp s d (Join e u)) \<in>
            {Response 404 (Message ''Event not found''),
             Response 400 (Message ''Already RSVPed''),
             Response 400 (Message ''Event is full''),
             Response 400 (Message ''RSVP Failed'')})"
proof (intro conjI impI)
  show "fst (rsvp s d (Join e u)) = fst (findOneAndUpdate_push s e u)"
    by (simp add: rsvp_Join findOneAndUpdate_push_def Let_def split: option.splits)
next
  assume na: "\<not> admitted (snd (rsvp s d (Join e u)))"
  then have rej: "\<not> (\<exists>ev. s e = Some ev \<and> join_filter u ev)"
    using admitted_Join_iff [of s d e u] by simp
  then have r: "rsvp s d (Join e u) = (s, classify (d e) u)"
    by (auto simp: rsvp_Join split: option.splits)
  then show "fst (rsvp s d (Join e u)) = s" by simp
  from r classify_range [of "d e" u]
  show "snd (rsvp s d (Join e u)) \<in>
            {Response 404 (Message ''Event not found''),
             Response 400 (Message ''Already RSVPed''),
             Response 400 (Message ''Event is full''),
             Response 400 (Message ''RSVP Failed'')}"
    by simp
qed

theorem rejected_join_changes_nothing_witness:
  "\<not> admitted (snd (rsvp [''e1'' \<mapsto> sample_event 5 [''alice'']] [''e1'' \<mapsto> sample_event 5 [''alice'']]
        (Join ''e1'' ''alice'')))
   \<and> fst (rsvp [''e1'' \<mapsto> sample_event 5 [''alice'']] [''e1'' \<mapsto> sample_event 5 [''alice'']]
        (Join ''e1'' ''alice'')) = [''e1'' \<mapsto> sample_event 5 [''alice'']]
   \<and> snd (rsvp [''e1'' \<mapsto> sample_event 5 [''alice'']] [''e1'' \<mapsto> sample_event 5 [''alice'']]
        (Join ''e1'' ''alice'')) = Response 400 (Message ''Already RSVPed'')"
  using rejected_join_changes_nothing [of "[''e1'' \<mapsto> sample_event 5 [''alice'']]"
          "[''e1'' \<mapsto> sample_event 5 [''alice'']]" "''e1''" "''alice''"]
  by (simp add: eval_defs)

text \<open>
  Claim C5. When the update of a join request is rejected, the answer is read off the
  document \<open>d e\<close> that the one diagnostic read finds, in this order: no document,
  \<^verbatim>\<open>Event not found\<close>; the user among its attendees, \<^verbatim>\<open>Already RSVPed\<close>; at least
  \<open>capacity\<close> attendees, \<^verbatim>\<open>Event is full\<close>; otherwise \<^verbatim>\<open>RSVP Failed\<close>. The collection
  is unchanged. The last answer needs a request served in between: in the fourth run below
  the only attendee of a full event has left before the read.
\<close>

theorem rejection_is_classified_in_order:
  assumes "snd (findOneAndUpdate_push s e u) = None"
  shows "rsvp s d (Join e u) =
     (s, case d e of
           None \<Rightarrow> Response 404 (Message ''Event not found'')
         | Some cur \<Rightarrow>
             if u \<in> set (attendees cur) then Response 400 (Message ''Already RSVPed'')
             else if capacity cur \<le> int (length (attendees cur))
                  then Response 400 (Message ''Event is full'')
             else Response 400 (Message ''RSVP Failed''))"
proof -
  from assms have "\<not> (\<exists>ev. s e = Some ev \<and> join_filter u ev)"
    by (auto simp: findOneAndUpdate_push_def Let_def split: option.splits if_splits)
  then have "rsvp s d (Join e u) = (s, classify (d e) u)"
    by (auto simp: rsvp_Join split: option.splits)
  then show ?thesis by (simp add: classify_def)
qed

theorem rejection_is_classified_in_order_witness:
  "rsvp Map.empty (Map.empty :: (string, string, unit) store) (Join ''ghost-event'' ''alice'')
     = (Map.empty, Response 404 (Message ''Event not found''))
   \<and> rsvp [''e1'' \<mapsto> sample_event 1 [''alice'']] [''e1'' \<mapsto> sample_event 1 [''alice'']]
        (Join ''e1'' ''alice'')
     = ([''e1'' \<mapsto> sample_event 1 [''alice'']], Response 400 (Message ''Already RSVPed''))
   \<and> rsvp [''e1'' \<mapsto> sample_event 1 [''alice'']] [''e1'' \<mapsto> sample_event 1 [''alice'']]
        (Join ''e1'' ''bob'')
     = ([''e1'' \<mapsto> sample_event 1 [''alice'']], Response 400 (Message ''Event is full''))
   \<and> rsvp [''e1'' \<mapsto> sample_event 1 [''alice'']] [''e1'' \<mapsto> sample_event 1 []]
        (Join ''e1'' ''bob'')
     = ([''e1'' \<mapsto> sample_event 1 [''alice'']], Response 400 (Message ''RSVP Failed''))"
  using rejection_is_classified_in_order [of "Map.empty :: (string, string, unit) store"
          "''ghost-event''" "''alice''" Map.empty]
        rejection_is_classified_in_order [of "[''e1'' \<mapsto> sample_event 1 [''alice'']]"
          "''e1''" "''alice''" "[''e1'' \<mapsto> sample_event 1 [''alice'']]"]
        rejection_is_classified_in_order [of "[''e1'' \<mapsto> sample_event 1 [''alice'']]"
          "''e1''" "''bob''" "[''e1'' \<mapsto> sample_event 1 [''alice'']]"]
        rejection_is_classified_in_order [of "[''e1'' \<mapsto> sample_event 1 [''alice'']]"
          "''e1''" "''bob''" "[''e1'' \<mapsto> sample_event 1 []]"]
  by (simp add: findOneAndUpdate_push_def join_filter_def)

subsection \<open>Leaving\<close>

text \<open>
  Claim C6. A leave request for an existing document stores the document with every
  occurrence of the user filtered out and answers \<^verbatim>\<open>RSVP Cancelled\<close> with that list,
  whose set is the old set without the user. A second leave right after it gives the same
  collection and the same answer, and a leave of a user who is not among the attendees
  leaves the collection as it was.
\<close>

theorem leave_is_idempotent:
  assumes "s e = Some ev"
  shows "rsvp s d (Leave e u) =
           (s(e \<mapsto> ev\<lparr>attendees := filter (\<lambda>a. a \<noteq> u) (attendees ev)\<rparr>),
            Response 200 (MessageAttendees ''RSVP Cancelled'' (filter (\<lambda>a. a \<noteq> u) (attendees ev))))
       \<and> set (filter (\<lambda>a. a \<noteq> u) (attendees ev)) = set (attendees ev) - {u}
       \<and> rsvp (fst (rsvp s d (Leave e u))) d' (Leave e u) = rsvp s d (Leave e u)
       \<and> (u \<notin> set (attendees ev) \<longrightarrow> fst (rsvp s d (Leave e u)) = s)"
proof (intro conjI impI)
  from assms show 1: "rsvp s d (Leave e u) =
           (s(e \<mapsto> ev\<lparr>attendees := filter (\<lambda>a. a \<noteq> u) (attendees ev)\<rparr>),
            Response 200 (MessageAttendees ''RSVP Cancelled'' (filter (\<lambda>a. a \<noteq> u) (attendees ev))))"
    by (simp add: rsvp_Leave)
  show "set (filter (\<lambda>a. a \<noteq> u) (attendees ev)) = set (attendees ev) - {u}"
    by auto
  show "rsvp (fst (rsvp s d (Leave e u))) d' (Leave e u) = rsvp s d (Leave e u)"
    by (simp add: 1) (simp add: rsvp_Leave)
  assume "u \<notin> set (attendees ev)"
  then have "filter (\<lambda>a. a \<noteq> u) (attendees ev) = attendees ev"
    by (auto simp: filter_id_conv)
  with 1 assms show "fst (rsvp s d (Leave e u)) = s"
    by (simp add: map_upd_triv)
qed

theorem leave_is_idempotent_witness:
  "rsvp [''e1'' \<mapsto> sample_event 3 [''alice'', ''bob'', ''carol'']] Map.empty (Leave ''e1'' ''bob'')
     = ([''e1'' \<mapsto> sample_event 3 [''alice'', ''carol'']],
        Response 200 (MessageAttendees ''RSVP Cancelled'' [''alice'', ''carol'']))
   \<and> rsvp [''e1'' \<mapsto> sample_event 3 [''alice'', ''carol'']] Map.empty (Leave ''e1'' ''bob'')
     = ([''e1'' \<mapsto> sample_event 3 [''alice'', ''carol'']],
        Response 200 (MessageAttendees ''RSVP Cancelled'' [''alice'', ''carol'']))
   \<and> fst (rsvp [''e1'' \<mapsto> sample_event 3 [''alice'', ''carol'']] Map.empty (Leave ''e1'' ''dave''))
     = [''e1'' \<mapsto> sample_event 3 [''alice'', ''carol'']]"
  using leave_is_idempotent [of "[''e1'' \<mapsto> sample_event 3 [''alice'', ''bob'', ''carol'']]"
          "''e1''" "sample_event 3 [''alice'', ''bob'', ''carol'']" Map.empty "''bob''" Map.empty]
        leave_is_idempotent [of "[''e1'' \<mapsto> sample_event 3 [''alice'', ''carol'']]"
          "''e1''" "sample_event 3 [''alice'', ''carol'']" Map.empty "''dave''" Map.empty]
  by (simp add: eval_defs)

text \<open>
  Claim C7 does not hold of the code. For an identifier with no document,
  \<^verbatim>\<open>findByIdAndUpdate\<close> returns \<^verbatim>\<open>null\<close>, line 147 reads \<^verbatim>\<open>event.attendees\<close> of it, and
  the \<^verbatim>\<open>catch\<close> clause answers 500 with the message of the \<^verbatim>\<open>TypeError\<close>; the collection
  is unchanged. The join branch tests its result for \<^verbatim>\<open>null\<close> (lines 125 and 128); the
  leave branch does not.
\<close>

theorem leave_missing_event_answers_500:
  "rsvp (Map.empty :: (string, string, unit) store) Map.empty (Leave ''ghost-event'' ''alice'')
     = (Map.empty, Response 500 (ErrorBody (TypeError_property_of_null ''attendees'')))"
  by (simp add: rsvp_def Leave_def findByIdAndUpdate_pull_def)

text \<open>
  Claim C9. After a leave request for an existing document the user is not among the
  stored attendees, however often the user occurred there before: the stored list is the
  old one with every occurrence filtered out.
\<close>

theorem leave_removes_every_occurrence:
  assumes "s e = Some ev"
  shows "\<exists>ev'. fst (rsvp s d (Leave e u)) e = Some ev'
           \<and> attendees ev' = filter (\<lambda>a. a \<noteq> u) (attendees ev)
           \<and> u \<notin> set (attendees ev')
           \<and> count_list (attendees ev') u = 0"
  using assms by (simp add: rsvp_Leave count_list_0_iff)

theorem leave_removes_every_occurrence_witness:
  "fst (rsvp [''e1'' \<mapsto> sample_event 3 [''alice'', ''bob'', ''alice'']] Map.empty
          (Leave ''e1'' ''alice'')) ''e1''
     = Some (sample_event 3 [''bob''])"
  using leave_removes_every_occurrence [of "[''e1'' \<mapsto> sample_event 3 [''alice'', ''bob'', ''alice'']]"
          "''e1''" "sample_event 3 [''alice'', ''bob'', ''alice'']" Map.empty "''alice''"]
  by (simp add: eval_defs)

subsection \<open>Other actions, other events\<close>




text \<open>
  Claim C10. A join or leave request for the event \<open>e\<close> leaves the document of every other
  identifier \<open>e'\<close> as it was, capacity, attendees and other fields alike, and an identifier
  without a document stays without one.
\<close>

theorem other_events_untouched:
  assumes "e' \<noteq> e"
  shows "fst (rsvp s d (Join e u)) e' = s e' \<and> fst (rsvp s d (Leave e u)) e' = s e'"
  using assms by (simp add: rsvp_Join rsvp_Leave split: option.splits)

theorem other_events_untouched_witness:
  "fst (rsvp [''e1'' \<mapsto> sample_event 3 [''alice''], ''e2'' \<mapsto> sample_event 1 [''alice'']] Map.empty
          (Join ''e1'' ''bob'')) ''e2'' = Some (sample_event 1 [''alice''])
   \<and> fst (rsvp [''e1'' \<mapsto> sample_event 3 [''alice''], ''e2'' \<mapsto> sample_event 1 [''alice'']] Map.empty
          (Leave ''e1'' ''alice'')) ''e2'' = Some (sample_event 1 [''alice''])"
  using other_events_untouched [of "''e2''" "''e1''"
          "[''e1'' \<mapsto> sample_event 3 [''alice''], ''e2'' \<mapsto> sample_event 1 [''alice'']]"
          Map.empty "''bob''"]
        other_events_untouched [of "''e2''" "''e1''"
          "[''e1'' \<mapsto> sample_event 3 [''alice''], ''e2'' \<mapsto> sample_event 1 [''alice'']]"
          Map.empty "''alice''"]
  by simp

end
